theory Spec2Isabelle
  imports Main "HOL-Library.Word"
begin

section \<open>The device filesystem and the node creation call of BeeOS\<close>

text \<open>
  A shallow embedding of \<^verbatim>\<open>kernel/src/sys/sys_mknod.c\<close> and
  \<^verbatim>\<open>kernel/src/fs/devfs.c\<close>. A C string is the \<open>string\<close> of its characters
  before the terminating NUL. A pointer to a node is the node it points to, which
  carries the address it was allocated at; a pointer to a directory entry is its address
  in a store of entries; \<open>None\<close> stands for NULL. Everything the two files call but
  do not define (the naming layer, the drivers, \<^verbatim>\<open>kmalloc\<close>, the constants of the
  headers) is a parameter of the functions below.
\<close>

subsection \<open>Undefined behaviour as a value\<close>

datatype error =
    Out_of_bounds_read    \<comment> \<open>a read beyond the terminator of a string\<close>
  | Buffer_overflow       \<comment> \<open>a write beyond the end of the destination array\<close>
  | Null_deref            \<comment> \<open>a field access through NULL\<close>
  | Bad_pointer           \<comment> \<open>a field access through a pointer to no object\<close>
  | Indeterminate_value   \<comment> \<open>the use of an automatic variable that was never assigned\<close>
  | Bad_container         \<comment> \<open>\<^verbatim>\<open>list_container\<close> applied to a link that is a list head\<close>
  | Not_live              \<comment> \<open>\<^verbatim>\<open>list_delete\<close> of a node that is in no list\<close>

subsection \<open>\<^verbatim>\<open>split_path\<close>\<close>

text \<open>
  The loop \<^verbatim>\<open>while (i > 0) { i--; if (filepath[i] == '/') break; }\<close>, started at
  \<open>i = strlen filepath\<close>: the result is the index of the last separator, or 0
  when the only separator is the first character or there is none.
\<close>

fun last_sep :: "string \<Rightarrow> nat \<Rightarrow> nat" where
  "last_sep filepath 0 = 0"
| "last_sep filepath (Suc i) =
     (if filepath ! i = CHR ''/'' then i else last_sep filepath i)"

text \<open>
  The result is the pair of the strings left in \<^verbatim>\<open>parent\<close> and \<^verbatim>\<open>name\<close>. On
  the empty path the second branch reads \<^verbatim>\<open>filepath[1]\<close>, one byte beyond the
  terminator.
\<close>

definition split_path :: "string \<Rightarrow> error + (string \<times> string)" where
  "split_path filepath =
     (let i = last_sep filepath (length filepath) in
      if 0 < i then
        (let k = (if filepath ! 0 = CHR ''/'' then 1 else 0)
         in Inr (take i filepath, drop (i + k) filepath))
      else if length filepath = 0 then Inl Out_of_bounds_read
      else if 1 < length filepath then Inr (''/'', drop 1 filepath)
      else Inr (''/'', ''.''))"

subsection \<open>Types and constants of the headers\<close>

text \<open>
  The headers are not part of the sources at hand. The integer types have the widths of
  the 32-bit target of the kernel: \<^verbatim>\<open>int\<close>, \<^verbatim>\<open>size_t\<close> and \<^verbatim>\<open>ssize_t\<close> are 32
  bits wide, the first and the last read as signed numbers by \<open>sint\<close>; \<^verbatim>\<open>dev_t\<close>
  is 16 bits wide, as the sentinel \<^verbatim>\<open>0xFFFF\<close> and the format \<^verbatim>\<open>%04x\<close> of the debugging
  output have it. Arithmetic on words wraps around; ISO C leaves the overflow of an
  \<^verbatim>\<open>int\<close> undefined, and the wrap is what the target computes.
\<close>

type_synonym c_int = "32 word"
type_synonym size_t = "32 word"
type_synonym ssize_t = "32 word"
type_synonym off_t = "32 word"
type_synonym mode_t = "32 word"
type_synonym dev_t = "16 word"
type_synonym byte = "8 word"

text \<open>The named constants of the headers, as parameters.\<close>

record header =
  DEV_TTY :: dev_t
  DEV_CONSOLE :: dev_t
  DEV_CONSOLE1 :: dev_t
  DEV_CONSOLE2 :: dev_t
  DEV_CONSOLE3 :: dev_t
  DEV_CONSOLE4 :: dev_t
  DEV_INITRD :: dev_t
  DEV_ZERO :: dev_t
  DEV_NULL :: dev_t
  ENODEV :: c_int
  EEXIST :: c_int
  S_IFDIR :: mode_t
  PATH_MAX :: nat
  NAME_MAX :: nat
  D_NAME_SIZE :: nat   \<comment> \<open>\<^verbatim>\<open>sizeof(dent->d_name)\<close>\<close>

text \<open>
  The labels of the two \<^verbatim>\<open>switch\<close> statements; a C compiler refuses a
  \<^verbatim>\<open>switch\<close> with a repeated label.
\<close>

definition case_labels :: "header \<Rightarrow> dev_t list" where
  "case_labels k =
     [DEV_TTY k, DEV_CONSOLE k, DEV_CONSOLE1 k, DEV_CONSOLE2 k, DEV_CONSOLE3 k,
      DEV_CONSOLE4 k, DEV_INITRD k, DEV_ZERO k, DEV_NULL k]"

text \<open>The drivers behind the terminal and RAM disk devices, as parameters.\<close>

record drivers =
  tty_read :: "dev_t \<Rightarrow> byte list \<Rightarrow> size_t \<Rightarrow> ssize_t \<times> byte list"
  tty_write :: "dev_t \<Rightarrow> byte list \<Rightarrow> size_t \<Rightarrow> ssize_t"
  ramdisk_read :: "byte list \<Rightarrow> size_t \<Rightarrow> off_t \<Rightarrow> ssize_t \<times> byte list"
  ramdisk_write :: "byte list \<Rightarrow> size_t \<Rightarrow> off_t \<Rightarrow> ssize_t"

subsection \<open>Nodes and the registry\<close>

record inode =
  i_ino :: c_int
  i_dev :: dev_t
  i_mode :: mode_t

text \<open>
  \<^verbatim>\<open>struct devfs_inode\<close>: the node at the address \<^verbatim>\<open>kmalloc\<close> returned. Its
  \<^verbatim>\<open>link\<close> is its position in the registry.
\<close>

record devfs_inode =
  addr :: nat
  base :: inode

text \<open>
  The superblock, as \<^verbatim>\<open>sb_init\<close> is given it: its device identifier and its root
  entry, which is the name and the node \<^verbatim>\<open>dentry_create\<close> is given.
\<close>

record sb =
  sb_dev :: dev_t
  sb_root_name :: string
  sb_root_inode :: devfs_inode

text \<open>
  The static variables of \<^verbatim>\<open>devfs.c\<close>: the circular list \<^verbatim>\<open>devfs_nodes\<close> as the
  list of its nodes from \<^verbatim>\<open>devfs_nodes.next\<close> on, the counter \<^verbatim>\<open>ino\<close> of
  \<^verbatim>\<open>devfs_sb_inode_alloc\<close>, and the superblock.
\<close>

record devfs =
  devfs_nodes :: "devfs_inode list"
  ino :: c_int
  devfs_sb :: "sb option"

text \<open>
  The variables once \<^verbatim>\<open>list_init\<close> has run, at the first line of the first
  \<^verbatim>\<open>devfs_sb_create\<close>, and nothing is allocated yet: the registry is empty and the
  counter has its initial value, \<^verbatim>\<open>static int ino = 0\<close>. Before that line the head of
  the list is zero-filled, so that walking or extending the list goes through NULL; the
  states of this record are those from \<^verbatim>\<open>list_init\<close> on.
\<close>

definition devfs_boot :: devfs where
  "devfs_boot = \<lparr>devfs_nodes = [], ino = 0, devfs_sb = None\<rparr>"

subsection \<open>The dispatch on the device identifier\<close>

text \<open>\<^verbatim>\<open>memset(buf, c, n)\<close> on an array of \<open>length buf\<close> bytes.\<close>

definition memset :: "byte list \<Rightarrow> byte \<Rightarrow> nat \<Rightarrow> error + byte list" where
  "memset buf c n =
     (if n \<le> length buf then Inr (replicate n c @ drop n buf) else Inl Buffer_overflow)"

definition is_tty :: "header \<Rightarrow> dev_t \<Rightarrow> bool" where
  "is_tty k dev \<longleftrightarrow>
     dev = DEV_TTY k \<or> dev = DEV_CONSOLE k \<or> dev = DEV_CONSOLE1 k \<or>
     dev = DEV_CONSOLE2 k \<or> dev = DEV_CONSOLE3 k \<or> dev = DEV_CONSOLE4 k"

text \<open>
  The result is the value returned and the contents of \<^verbatim>\<open>buf\<close> afterwards. The case
  \<^verbatim>\<open>DEV_ZERO\<close> falls through into \<^verbatim>\<open>DEV_NULL\<close>. The assignment \<^verbatim>\<open>n = count\<close>
  converts a \<^verbatim>\<open>size_t\<close> to a \<^verbatim>\<open>ssize_t\<close>, which keeps the 32 bits.
\<close>

definition devfs_inode_read ::
  "header \<Rightarrow> drivers \<Rightarrow> inode \<Rightarrow> byte list \<Rightarrow> size_t \<Rightarrow> off_t \<Rightarrow> error + (ssize_t \<times> byte list)"
where
  "devfs_inode_read k drv inode buf count offset =
     (let dev = i_dev inode in
      if is_tty k dev then Inr (tty_read drv dev buf count)
      else if dev = DEV_INITRD k then Inr (ramdisk_read drv buf count offset)
      else if dev = DEV_ZERO k then
        (case memset buf 0 (unat count) of
           Inl e \<Rightarrow> Inl e
         | Inr buf' \<Rightarrow> Inr (count, buf'))
      else if dev = DEV_NULL k then Inr (count, buf)
      else Inr (- ENODEV k, buf))"

text \<open>
  The result of a read with the value returned as the number it stands for: a
  \<^verbatim>\<open>ssize_t\<close> is signed.
\<close>

definition as_number :: "error + (ssize_t \<times> byte list) \<Rightarrow> error + (int \<times> byte list)" where
  "as_number r = map_sum id (map_prod sint id) r"

text \<open>The source buffer is \<^verbatim>\<open>const\<close>: the result is the value returned.\<close>

definition devfs_inode_write ::
  "header \<Rightarrow> drivers \<Rightarrow> inode \<Rightarrow> byte list \<Rightarrow> size_t \<Rightarrow> off_t \<Rightarrow> ssize_t"
where
  "devfs_inode_write k drv inode buf count offset =
     (let dev = i_dev inode in
      if is_tty k dev then tty_write drv dev buf count
      else if dev = DEV_INITRD k then ramdisk_write drv buf count offset
      else if dev = DEV_ZERO k \<or> dev = DEV_NULL k then count
      else - ENODEV k)"

subsection \<open>Names of devices\<close>

definition dev_name_map :: "header \<Rightarrow> (string \<times> dev_t) list" where
  "dev_name_map k =
     [(''zero'', DEV_ZERO k), (''tty1'', DEV_CONSOLE1 k), (''tty2'', DEV_CONSOLE2 k),
      (''tty3'', DEV_CONSOLE3 k), (''tty4'', DEV_CONSOLE4 k), (''initrd'', DEV_INITRD k)]"

text \<open>The loop of \<^verbatim>\<open>name_to_dev\<close> over the rows that are left.\<close>

fun name_to_dev_loop :: "(string \<times> dev_t) list \<Rightarrow> string \<Rightarrow> dev_t \<Rightarrow> dev_t" where
  "name_to_dev_loop [] name dev = dev"
| "name_to_dev_loop (row # rows) name dev =
     (if fst row = name then snd row else name_to_dev_loop rows name dev)"

definition name_to_dev :: "header \<Rightarrow> string \<Rightarrow> dev_t" where
  "name_to_dev k name = name_to_dev_loop (dev_name_map k) name 0xFFFF"

text \<open>
  The loop of \<^verbatim>\<open>devfs_lookup\<close> over the nodes from \<^verbatim>\<open>curr_link\<close> to the head of the
  list; \<open>inode\<close> is the local variable, NULL before the loop.
\<close>

fun devfs_lookup_loop :: "devfs_inode list \<Rightarrow> dev_t \<Rightarrow> inode option \<Rightarrow> inode option" where
  "devfs_lookup_loop [] dev inode = inode"
| "devfs_lookup_loop (node # rest) dev inode =
     (if i_dev (base node) = dev then Some (base node)
      else devfs_lookup_loop rest dev inode)"

definition devfs_lookup :: "header \<Rightarrow> devfs \<Rightarrow> inode option \<Rightarrow> string \<Rightarrow> inode option" where
  "devfs_lookup k s dir name =
     (if name = ''.'' \<or> name = ''..'' then dir
      else devfs_lookup_loop (devfs_nodes s) (name_to_dev k name) None)"

subsection \<open>Allocation and release of nodes\<close>

text \<open>
  Modelled from the spec: \<^verbatim>\<open>inode_init\<close>, of the VFS layer, which the sources at hand
  only call. It stores the device identifier and the sequence number it is given; the
  mode is set by the callers afterwards.
\<close>

definition inode_init :: "dev_t \<Rightarrow> c_int \<Rightarrow> inode" where
  "inode_init dev n = \<lparr>i_ino = n, i_dev = dev, i_mode = 0\<rparr>"

text \<open>
  The first argument is what \<^verbatim>\<open>kmalloc\<close> returns: an address, or NULL. The node is
  linked before the head of the circular list, which is its end.
\<close>

definition devfs_sb_inode_alloc :: "nat option \<Rightarrow> devfs \<Rightarrow> devfs_inode option \<times> devfs" where
  "devfs_sb_inode_alloc kmalloc s =
     (case kmalloc of
        None \<Rightarrow> (None, s)
      | Some a \<Rightarrow>
          (let inode = \<lparr>addr = a, base = inode_init 0 (ino s)\<rparr>
           in (Some inode, s\<lparr>ino := ino s + 1, devfs_nodes := devfs_nodes s @ [inode]\<rparr>)))"

text \<open>
  The argument is the address of the node. \<^verbatim>\<open>list_delete\<close> unlinks the node from the
  list it is in; for a node that is in none the call is undefined.
\<close>

definition devfs_sb_inode_free :: "nat \<Rightarrow> devfs \<Rightarrow> error + devfs" where
  "devfs_sb_inode_free inode s =
     (if inode \<in> addr ` set (devfs_nodes s)
      then Inr (s\<lparr>devfs_nodes := filter (\<lambda>n. addr n \<noteq> inode) (devfs_nodes s)\<rparr>)
      else Inl Not_live)"

subsection \<open>Lookup by device identifier\<close>

text \<open>An automatic variable: indeterminate until it is assigned.\<close>

datatype 'a local = Unassigned | Assigned 'a

text \<open>
  The loop of \<^verbatim>\<open>dev_to_inode\<close>. The local variable \<open>inode\<close> has no initialiser and
  is assigned at every node the loop visits, before the comparison.
\<close>

fun dev_to_inode_loop ::
  "devfs_inode list \<Rightarrow> dev_t \<Rightarrow> devfs_inode option local \<Rightarrow> devfs_inode option local"
where
  "dev_to_inode_loop [] dev inode = inode"
| "dev_to_inode_loop (node # rest) dev inode =
     (if i_dev (base node) = dev then Assigned (Some node)
      else dev_to_inode_loop rest dev (Assigned (Some node)))"

definition dev_to_inode :: "devfs \<Rightarrow> dev_t \<Rightarrow> devfs_inode option local" where
  "dev_to_inode s dev = dev_to_inode_loop (devfs_nodes s) dev Unassigned"

definition devfs_read ::
  "header \<Rightarrow> drivers \<Rightarrow> devfs \<Rightarrow> dev_t \<Rightarrow> byte list \<Rightarrow> size_t \<Rightarrow> off_t \<Rightarrow> error + (ssize_t \<times> byte list)"
where
  "devfs_read k drv s dev buf sz off =
     (case dev_to_inode s dev of
        Unassigned \<Rightarrow> Inl Indeterminate_value
      | Assigned None \<Rightarrow> Inr (- 1, buf)
      | Assigned (Some inode) \<Rightarrow> devfs_inode_read k drv (base inode) buf sz off)"

definition devfs_write ::
  "header \<Rightarrow> drivers \<Rightarrow> devfs \<Rightarrow> dev_t \<Rightarrow> byte list \<Rightarrow> size_t \<Rightarrow> off_t \<Rightarrow> error + ssize_t"
where
  "devfs_write k drv s dev buf sz off =
     (case dev_to_inode s dev of
        Unassigned \<Rightarrow> Inl Indeterminate_value
      | Assigned None \<Rightarrow> Inr (- 1)
      | Assigned (Some inode) \<Rightarrow> Inr (devfs_inode_write k drv (base inode) buf sz off))"

subsection \<open>Mounting\<close>

text \<open>A write through a pointer to a node of the registry: the node at that address.\<close>

definition store_node :: "devfs_inode \<Rightarrow> devfs_inode list \<Rightarrow> devfs_inode list" where
  "store_node x nodes = map (\<lambda>n. if addr n = addr x then x else n) nodes"

text \<open>
  \<^verbatim>\<open>list_init\<close> empties the registry. The result of \<^verbatim>\<open>devfs_sb_inode_alloc\<close> is
  not tested before the two assignments through it. Modelled from the spec:
  \<^verbatim>\<open>dentry_create\<close> and \<^verbatim>\<open>sb_init\<close>, of the VFS layer, which bind the root entry
  to the root node and the superblock to the root entry.
\<close>

definition devfs_sb_create :: "header \<Rightarrow> nat option \<Rightarrow> dev_t \<Rightarrow> devfs \<Rightarrow> error + devfs" where
  "devfs_sb_create k kmalloc dev s =
     (case devfs_sb_inode_alloc kmalloc (s\<lparr>devfs_nodes := []\<rparr>) of
        (None, s1) \<Rightarrow> Inl Null_deref
      | (Some root, s1) \<Rightarrow>
          (let root' = root\<lparr>base := (base root)\<lparr>i_mode := S_IFDIR k, i_dev := dev\<rparr>\<rparr>;
               s2 = s1\<lparr>devfs_nodes := store_node root' (devfs_nodes s1)\<rparr>
           in Inr (s2\<lparr>devfs_sb :=
                 Some \<lparr>sb_dev = 0, sb_root_name = ''/'', sb_root_inode = root'\<rparr>\<rparr>)))"

subsection \<open>Directory iteration\<close>

text \<open>
  A pointer to a \<^verbatim>\<open>struct list_link\<close>: NULL, the head \<^verbatim>\<open>child\<close> of the child list
  of the entry at an address, or the \<^verbatim>\<open>link\<close> of the entry at an address.
\<close>

datatype link_ptr = Null_link | Child_head nat | Dentry_link nat

text \<open>
  \<^verbatim>\<open>struct dentry\<close>, with the fields the iteration reads: the name, the node, and
  the \<^verbatim>\<open>next\<close> pointers of its \<^verbatim>\<open>child\<close> head and of its \<^verbatim>\<open>link\<close>.
\<close>

record dentry =
  de_name :: string
  de_inode :: inode
  child_next :: link_ptr
  link_next :: link_ptr

text \<open>The entries in memory, by address.\<close>

type_synonym dentries = "nat \<Rightarrow> dentry option"

record dirent =
  d_ino :: c_int
  d_name :: string   \<comment> \<open>the \<open>D_NAME_SIZE\<close> characters of the array\<close>

text \<open>
  \<^verbatim>\<open>strncpy(dst, src, n)\<close>, as the \<open>n\<close> characters of \<open>dst\<close> afterwards: the
  string, cut at \<open>n\<close> characters, and padded with NUL when it is shorter.
\<close>

definition strncpy :: "string \<Rightarrow> nat \<Rightarrow> string" where
  "strncpy src n = take n (src @ replicate n (CHR 0x00))"

text \<open>The end of \<^verbatim>\<open>devfs_dentry_readdir\<close>, from \<^verbatim>\<open>if (name)\<close> on.\<close>

definition readdir_return ::
  "header \<Rightarrow> string option \<Rightarrow> dirent \<Rightarrow> link_ptr \<Rightarrow> error + (c_int \<times> dirent \<times> link_ptr)"
where
  "readdir_return k name dent curr_link =
     (case name of
        Some n \<Rightarrow> Inr (0, dent\<lparr>d_name := strncpy n (D_NAME_SIZE k)\<rparr>, curr_link)
      | None \<Rightarrow> Inr (- 1, dent, curr_link))"

text \<open>
  The static variable \<^verbatim>\<open>curr_link\<close> is an argument, and part of the result with the
  value returned and the contents of \<^verbatim>\<open>dent\<close>; \<open>dir\<close> is the address of the
  directory entry. The index is only compared with 0, 1 and 2.
\<close>

definition devfs_dentry_readdir ::
  "header \<Rightarrow> dentries \<Rightarrow> link_ptr \<Rightarrow> nat \<Rightarrow> nat \<Rightarrow> dirent \<Rightarrow>
     error + (c_int \<times> dirent \<times> link_ptr)"
where
  "devfs_dentry_readdir k h curr_link dir i dent =
     (if i = 0 then readdir_return k (Some ''.'') dent curr_link
      else if i = 1 then readdir_return k (Some ''..'') dent curr_link
      else
        (case (if i = 2 then map_option child_next (h dir) else Some curr_link) of
           None \<Rightarrow> Inl Bad_pointer
         | Some link \<Rightarrow>
             if link = Child_head dir then readdir_return k None dent link
             else
               (case link of
                  Null_link \<Rightarrow> Inl Null_deref
                | Child_head d \<Rightarrow> Inl Bad_container
                | Dentry_link c \<Rightarrow>
                    (case h c of
                       None \<Rightarrow> Inl Bad_pointer
                     | Some entry \<Rightarrow>
                         readdir_return k (Some (de_name entry))
                           (dent\<lparr>d_ino := i_ino (de_inode entry)\<rparr>) (link_next entry)))))"

text \<open>
  A caller that lists a directory: \<open>n\<close> calls with the indices \<open>i\<close>, \<open>i + 1\<close>, ...
  on the same \<^verbatim>\<open>dent\<close>. The result is the list of the values returned with the
  contents of \<^verbatim>\<open>dent\<close> after each call, and the cursor at the end.
\<close>

fun readdir_calls ::
  "header \<Rightarrow> dentries \<Rightarrow> nat \<Rightarrow> link_ptr \<Rightarrow> nat \<Rightarrow> nat \<Rightarrow> dirent \<Rightarrow>
     error + ((c_int \<times> dirent) list \<times> link_ptr)"
where
  "readdir_calls k h 0 curr_link dir i dent = Inr ([], curr_link)"
| "readdir_calls k h (Suc n) curr_link dir i dent =
     (case devfs_dentry_readdir k h curr_link dir i dent of
        Inl e \<Rightarrow> Inl e
      | Inr (res, dent', link) \<Rightarrow>
          (case readdir_calls k h n link dir (Suc i) dent' of
             Inl e \<Rightarrow> Inl e
           | Inr (rs, link') \<Rightarrow> Inr ((res, dent') # rs, link')))"

text \<open>
  The child list of a directory: the links from \<open>p\<close> lead through the entries at the
  addresses \<open>cs\<close>, in this order, to \<open>q\<close>.
\<close>

fun child_list :: "dentries \<Rightarrow> link_ptr \<Rightarrow> nat list \<Rightarrow> link_ptr \<Rightarrow> bool" where
  "child_list h p [] q = (p = q)"
| "child_list h p (c # cs) q =
     (p = Dentry_link c \<and>
      (case h c of None \<Rightarrow> False | Some entry \<Rightarrow> child_list h (link_next entry) cs q))"

text \<open>What a call that reaches the entry at \<open>c\<close> leaves in \<^verbatim>\<open>dent\<close>.\<close>

definition dirent_of :: "header \<Rightarrow> dentries \<Rightarrow> nat \<Rightarrow> dirent" where
  "dirent_of k h c =
     (case h c of
        None \<Rightarrow> \<lparr>d_ino = 0, d_name = []\<rparr>
      | Some entry \<Rightarrow>
          \<lparr>d_ino = i_ino (de_inode entry), d_name = strncpy (de_name entry) (D_NAME_SIZE k)\<rparr>)"

text \<open>
  The listing of the children \<open>cs\<close>: status 0 and the entry of each child in turn,
  then status -1 with \<^verbatim>\<open>dent\<close> as the last successful call left it.
\<close>

definition listing :: "header \<Rightarrow> dentries \<Rightarrow> dirent \<Rightarrow> nat list \<Rightarrow> (c_int \<times> dirent) list" where
  "listing k h dent cs =
     map (\<lambda>c. (0, dirent_of k h c)) cs @ [(- 1, last (dent # map (dirent_of k h) cs))]"

subsection \<open>\<^verbatim>\<open>sys_mknod\<close>\<close>

text \<open>
  The naming layer, as parameters that pass a state \<open>'w\<close> of their own along:
  \<^verbatim>\<open>named\<close> resolves a path to the address of an entry or to NULL, \<open>inod\<close> reads the
  field \<^verbatim>\<open>inod\<close> of an entry, \<^verbatim>\<open>vfs_mknod\<close> returns a status, and \<^verbatim>\<open>dget\<close> is
  given the address or NULL.
\<close>

record 'w vfs =
  named :: "string \<Rightarrow> 'w \<Rightarrow> nat option \<times> 'w"
  inod :: "nat \<Rightarrow> 'w \<Rightarrow> nat"
  vfs_mknod :: "nat \<Rightarrow> mode_t \<Rightarrow> dev_t \<Rightarrow> 'w \<Rightarrow> c_int \<times> 'w"
  dget :: "nat option \<Rightarrow> 'w \<Rightarrow> 'w"

text \<open>
  The body of \<^verbatim>\<open>sys_mknod\<close> after a successful \<^verbatim>\<open>vfs_mknod\<close>: the assignment
  \<^verbatim>\<open>res = -1\<close> is the whole body of the \<^verbatim>\<open>if\<close>, and the call of \<^verbatim>\<open>dget\<close>
  follows it in either case.
\<close>

definition sys_mknod_keep :: "'w vfs \<Rightarrow> string \<Rightarrow> c_int \<Rightarrow> 'w \<Rightarrow> c_int \<times> 'w" where
  "sys_mknod_keep v pathname res w =
     (case named v pathname w of
        (dchild, w') \<Rightarrow> (if dchild = None then - 1 else res, dget v dchild w'))"

text \<open>
  The arrays \<^verbatim>\<open>parent\<close> and \<^verbatim>\<open>name\<close> hold \<open>PATH_MAX\<close> and \<open>NAME_MAX\<close>
  characters, the terminator among them; \<^verbatim>\<open>split_path\<close> writes to them without a
  bound.
\<close>

definition sys_mknod ::
  "header \<Rightarrow> 'w vfs \<Rightarrow> string \<Rightarrow> mode_t \<Rightarrow> dev_t \<Rightarrow> 'w \<Rightarrow> error + (c_int \<times> 'w)"
where
  "sys_mknod k v pathname mode dev w =
     (case named v pathname w of
        (Some dentry, w1) \<Rightarrow> Inr (- EEXIST k, w1)
      | (None, w1) \<Rightarrow>
          (case split_path pathname of
             Inl e \<Rightarrow> Inl e
           | Inr (parent, name) \<Rightarrow>
               if PATH_MAX k \<le> length parent \<or> NAME_MAX k \<le> length name
               then Inl Buffer_overflow
               else
                 (case named v parent w1 of
                    (None, w2) \<Rightarrow> Inr (- 1, w2)
                  | (Some dentry, w2) \<Rightarrow>
                      (case vfs_mknod v (inod v dentry w2) mode dev w2 of
                         (res, w3) \<Rightarrow>
                           if res = 0 then Inr (sys_mknod_keep v pathname res w3)
                           else Inr (res, w3)))))"

subsection \<open>Sequences of allocations and releases\<close>

datatype op = Alloc "nat option" | Free nat

text \<open>
  The calls of a list in turn, from left to right. The result is the list of the
  sequence numbers given to the nodes allocated, in the order of the calls, and the
  state at the end.
\<close>

fun run :: "op list \<Rightarrow> devfs \<Rightarrow> error + (c_int list \<times> devfs)" where
  "run [] s = Inr ([], s)"
| "run (Alloc kmalloc # ops) s =
     (case devfs_sb_inode_alloc kmalloc s of
        (None, s') \<Rightarrow> run ops s'
      | (Some inode, s') \<Rightarrow>
          (case run ops s' of
             Inl e \<Rightarrow> Inl e
           | Inr (ns, s'') \<Rightarrow> Inr (i_ino (base inode) # ns, s'')))"
| "run (Free inode # ops) s =
     (case devfs_sb_inode_free inode s of
        Inl e \<Rightarrow> Inl e
      | Inr s' \<Rightarrow> run ops s')"

text \<open>The sequence numbers a run assigned; none when the run is undefined.\<close>

definition assigned :: "error + (c_int list \<times> devfs) \<Rightarrow> c_int list" where
  "assigned r = (case r of Inl e \<Rightarrow> [] | Inr (ns, s) \<Rightarrow> ns)"

text \<open>Each of a list of signed numbers is less than all that follow it.\<close>

definition increasing :: "c_int list \<Rightarrow> bool" where
  "increasing ns = sorted_wrt (\<lambda>a b. sint a < sint b) ns"

text \<open>\<open>n\<close> times: a node is allocated at the address \<open>a\<close> and released.\<close>

definition churn :: "nat \<Rightarrow> nat \<Rightarrow> op list" where
  "churn a n = concat (replicate n [Alloc (Some a), Free a])"

subsection \<open>Sample parameters\<close>

text \<open>
  Values for the parameters, on which the functions are evaluated: constants that
  differ from each other, drivers that transfer nothing, and a naming layer that
  resolves the paths of a table and records the calls it receives.
\<close>

definition sample_header :: header where
  "sample_header =
     \<lparr>DEV_TTY = 0x0500, DEV_CONSOLE = 0x0501, DEV_CONSOLE1 = 0x0401,
      DEV_CONSOLE2 = 0x0402, DEV_CONSOLE3 = 0x0403, DEV_CONSOLE4 = 0x0404,
      DEV_INITRD = 0x0100, DEV_ZERO = 0x0105, DEV_NULL = 0x0103,
      ENODEV = 19, EEXIST = 17, S_IFDIR = 0x4000,
      PATH_MAX = 4096, NAME_MAX = 255, D_NAME_SIZE = 8\<rparr>"

definition idle_drivers :: drivers where
  "idle_drivers =
     \<lparr>tty_read = (\<lambda>dev buf count. (0, buf)), tty_write = (\<lambda>dev buf count. 0),
      ramdisk_read = (\<lambda>buf count offset. (0, buf)),
      ramdisk_write = (\<lambda>buf count offset. 0)\<rparr>"

definition sample_devfs :: devfs where
  "sample_devfs =
     \<lparr>devfs_nodes =
        [\<lparr>addr = 16, base = \<lparr>i_ino = 0, i_dev = 0x0300, i_mode = 0x4000\<rparr>\<rparr>,
         \<lparr>addr = 32, base = \<lparr>i_ino = 1, i_dev = 0x0105, i_mode = 0x2000\<rparr>\<rparr>],
      ino = 2, devfs_sb = None\<rparr>"

definition sentinel_devfs :: devfs where
  "sentinel_devfs =
     \<lparr>devfs_nodes =
        [\<lparr>addr = 16, base = \<lparr>i_ino = 0, i_dev = 0x0300, i_mode = 0x4000\<rparr>\<rparr>,
         \<lparr>addr = 32, base = \<lparr>i_ino = 1, i_dev = 0xFFFF, i_mode = 0x2000\<rparr>\<rparr>],
      ino = 2, devfs_sb = None\<rparr>"

definition sample_dentries :: dentries where
  "sample_dentries =
     [10 \<mapsto> \<lparr>de_name = ''/'', de_inode = \<lparr>i_ino = 0, i_dev = 0x0300, i_mode = 0x4000\<rparr>,
             child_next = Dentry_link 11, link_next = Null_link\<rparr>,
      11 \<mapsto> \<lparr>de_name = ''zero'', de_inode = \<lparr>i_ino = 1, i_dev = 0x0105, i_mode = 0x2000\<rparr>,
             child_next = Child_head 11, link_next = Dentry_link 12\<rparr>,
      12 \<mapsto> \<lparr>de_name = ''tty1'', de_inode = \<lparr>i_ino = 2, i_dev = 0x0401, i_mode = 0x2000\<rparr>,
             child_next = Child_head 12, link_next = Child_head 10\<rparr>]"

datatype call = Named string | Vfs_mknod nat mode_t dev_t | Dget "nat option"

definition tracing_vfs :: "(string \<times> nat) list \<Rightarrow> c_int \<Rightarrow> (call list) vfs" where
  "tracing_vfs table status =
     \<lparr>named = (\<lambda>path w. (map_of table path, w @ [Named path])),
      inod = (\<lambda>dentry w. dentry),
      vfs_mknod = (\<lambda>idir mode dev w. (status, w @ [Vfs_mknod idir mode dev])),
      dget = (\<lambda>dentry w. w @ [Dget dentry])\<rparr>"

section \<open>Properties\<close>

subsection \<open>Path splitting\<close>

lemma last_sep_le: "last_sep p n \<le> n"
  by (induction n) auto

lemma last_sep_is_sep: "0 < last_sep p n \<Longrightarrow> p ! last_sep p n = CHR ''/''"
  by (induction n) (auto split: if_splits)

lemma last_sep_lt: "0 < last_sep p n \<Longrightarrow> last_sep p n < n"
  by (induction n) (auto split: if_splits simp: less_Suc_eq)

lemma last_sep_none_after:
  "last_sep p n < j \<Longrightarrow> j < n \<Longrightarrow> p ! j \<noteq> CHR ''/''"
  by (induction n) (auto split: if_splits simp: less_Suc_eq)

text \<open>
  What the code does on an absolute path with a separator beyond the first character:
  the parent is the text before the last separator, the leaf the text after it.
\<close>

lemma split_path_absolute:
  assumes "p ! 0 = CHR ''/''" and "0 < last_sep p (length p)"
  shows "split_path p =
           Inr (take (last_sep p (length p)) p, drop (Suc (last_sep p (length p))) p)"
  using assms by (simp add: split_path_def Let_def)

text \<open>
  On a relative path with a separator the offset \<open>k\<close> is 0, and the leaf starts at the
  last separator itself.
\<close>

lemma split_path_relative:
  assumes "p ! 0 \<noteq> CHR ''/''" and "0 < last_sep p (length p)"
  shows "split_path p =
           Inr (take (last_sep p (length p)) p, drop (last_sep p (length p)) p) \<and>
         hd (drop (last_sep p (length p)) p) = CHR ''/''"
proof -
  let ?i = "last_sep p (length p)"
  have "?i < length p"
    using assms(2) by (rule last_sep_lt)
  then have "hd (drop ?i p) = p ! ?i"
    by (simp add: hd_drop_conv_nth)
  with assms last_sep_is_sep [OF assms(2)] show ?thesis
    by (simp add: split_path_def Let_def)
qed

text \<open>
  With no separator beyond the first character, the leaf is the path without its first
  character, whether that character is a separator or not.
\<close>

lemma split_path_no_inner_separator:
  assumes "last_sep p (length p) = 0" and "1 < length p"
  shows "split_path p = Inr (''/'', tl p)"
  using assms by (cases p) (simp_all add: split_path_def)

text \<open>
  C1. The claim: with no separator, or only a leading one, the parent is \<open>/\<close> and the
  leaf is the remainder after the leading separator, a bare file name being the leaf
  unchanged; otherwise the parent is the text before the last separator and the leaf
  the text after it, without the separator. The code does this for paths that start with
  a separator only. For the relative path \<open>a/b\<close> the offset \<open>k\<close> is 0 and the leaf is
  \<open>/b\<close>, separator included; for the bare name \<open>foo\<close> the second branch skips the first
  character whatever it is, and the leaf is \<open>oo\<close>.
\<close>

theorem split_path_relative_keeps_separator:
  "split_path ''a/b'' = Inr (''a'', ''/b'') \<and> split_path ''foo'' = Inr (''/'', ''oo'')"
  by (simp add: split_path_def Let_def)


subsection \<open>Lookup by device identifier\<close>

text \<open>
  When no node carries the identifier, the loop ends with \<open>inode\<close> as the last
  iteration left it: the last node of the registry, or no value at all.
\<close>

lemma dev_to_inode_loop_no_match:
  "\<forall>n \<in> set nodes. i_dev (base n) \<noteq> dev \<Longrightarrow>
   dev_to_inode_loop nodes dev x = (if nodes = [] then x else Assigned (Some (last nodes)))"
  by (induction nodes arbitrary: x) auto

text \<open>When a node carries the identifier, the first such node is returned.\<close>

lemma dev_to_inode_loop_first_match:
  "\<forall>n \<in> set pre. i_dev (base n) \<noteq> dev \<Longrightarrow> i_dev (base n) = dev \<Longrightarrow>
   dev_to_inode_loop (pre @ n # post) dev x = Assigned (Some n)"
  by (induction pre arbitrary: x) auto

lemma replicate_2: "replicate 2 x = [x, x]"
  by (simp add: numeral_2_eq_2)

text \<open>
  C2. The claim: for a device identifier that no live node carries, the lookup by
  identifier yields NotFound and \<^verbatim>\<open>devfs_read\<close> and \<^verbatim>\<open>devfs_write\<close> fail, rather
  than dispatching on an unrelated node. The code does not: \<^verbatim>\<open>dev_to_inode\<close> never
  sets its result to NULL. In a registry that holds the root and a zero device, the
  lookup of the identifier of the null device returns the zero device, the read fills the
  buffer with zero bytes and the write reports its count. In an empty registry the result
  is the variable that was never assigned. (\<^verbatim>\<open>devfs_lookup\<close>, the sibling loop, starts
  from NULL.)
\<close>

theorem dev_to_inode_unmatched_returns_last_node:
  "dev_to_inode sample_devfs (DEV_NULL sample_header) =
     Assigned (Some \<lparr>addr = 32, base = \<lparr>i_ino = 1, i_dev = 0x0105, i_mode = 0x2000\<rparr>\<rparr>) \<and>
   devfs_read sample_header idle_drivers sample_devfs (DEV_NULL sample_header) [1, 2, 3] 2 0 =
     Inr (2, [0, 0, 3]) \<and>
   devfs_write sample_header idle_drivers sample_devfs (DEV_NULL sample_header) [1, 2, 3] 2 0 =
     Inr 2 \<and>
   dev_to_inode devfs_boot (DEV_NULL sample_header) = Unassigned \<and>
   devfs_read sample_header idle_drivers devfs_boot (DEV_NULL sample_header) [1, 2, 3] 2 0 =
     Inl Indeterminate_value"
  by (simp add: dev_to_inode_def devfs_read_def devfs_write_def sample_devfs_def
      devfs_inode_read_def devfs_inode_write_def sample_header_def is_tty_def memset_def
      devfs_boot_def replicate_2)

subsection \<open>Node creation\<close>

text \<open>
  After a successful \<^verbatim>\<open>vfs_mknod\<close>, when the path does not resolve, the status is -1
  and \<^verbatim>\<open>dget\<close> is called with NULL, whatever the naming layer is.
\<close>

lemma sys_mknod_keep_null:
  "named v pathname w = (None, w') \<Longrightarrow>
   sys_mknod_keep v pathname res w = (- 1, dget v None w')"
  by (simp add: sys_mknod_keep_def)

text \<open>
  C3. The claim: after \<^verbatim>\<open>vfs_mknod\<close> reports success, \<^verbatim>\<open>dget\<close> is applied only to
  an entry that was resolved again; when the path does not resolve, the error is reported
  and \<^verbatim>\<open>dget\<close> is not applied to NULL. The code calls \<^verbatim>\<open>dget(dchild)\<close> in either
  case. With a naming layer that knows the root only and a \<^verbatim>\<open>vfs_mknod\<close> that returns
  0, the calls made for the path \<open>/x\<close> end with \<^verbatim>\<open>dget(NULL)\<close>.
\<close>

theorem sys_mknod_dget_on_null:
  "sys_mknod sample_header (tracing_vfs [(''/'', 1)] 0) ''/x'' mode dev [] =
     Inr (- 1, [Named ''/x'', Named ''/'', Vfs_mknod 1 mode dev, Named ''/x'', Dget None])"
  by (simp add: sys_mknod_def sys_mknod_keep_def tracing_vfs_def split_path_def sample_header_def)







subsection \<open>The zero and null devices\<close>

text \<open>
  The value returned for these devices is \<^verbatim>\<open>count\<close> converted to \<^verbatim>\<open>ssize_t\<close>: the
  same 32 bits, and the same number as long as the count is at most \<open>SSIZE_MAX\<close>.
\<close>

lemma count_as_ssize:
  fixes count :: size_t
  assumes "unat count < 2 ^ 31"
  shows "sint count = int (unat count)"
proof -
  have "int (unat count) < 2 ^ 31"
    using assms by (metis of_nat_less_iff of_nat_numeral of_nat_power)
  then have hi: "uint count < 2 ^ 31"
    by (simp only: uint_nat)
  have lo: "- (2 ^ 31) \<le> uint count"
    by (rule order_trans [of _ 0]) simp_all
  have "sint count = signed_take_bit 31 (uint count)"
    by (simp add: sint_uint)
  also have "\<dots> = uint count"
    using lo hi by (rule signed_take_bit_int_eq_self)
  finally show ?thesis
    by (simp only: uint_nat)
qed

text \<open>The bits returned for the two devices, at every count.\<close>

lemma zero_device_bits:
  assumes "distinct (case_labels k)" and "i_dev inode = DEV_ZERO k"
    and "unat count \<le> length buf"
  shows "devfs_inode_read k drv inode buf count offset =
           Inr (count, replicate (unat count) 0 @ drop (unat count) buf) \<and>
         devfs_inode_write k drv inode src count offset = count"
  using assms
  by (auto simp add: devfs_inode_read_def devfs_inode_write_def case_labels_def is_tty_def memset_def)

lemma null_device_bits:
  assumes "distinct (case_labels k)" and "i_dev inode = DEV_NULL k"
  shows "devfs_inode_read k drv inode buf count offset = Inr (count, buf) \<and>
         devfs_inode_write k drv inode src count offset = count"
  using assms
  by (auto simp add: devfs_inode_read_def devfs_inode_write_def case_labels_def is_tty_def)

text \<open>
  C5. The claim: for every count, reading that many bytes from the zero device sets the
  first \<open>count\<close> bytes of the buffer to zero and returns the count, and writing
  returns the count. The value returned is a \<^verbatim>\<open>ssize_t\<close>, and the claim holds for the
  counts up to \<open>SSIZE_MAX\<close>: a read into a buffer that holds \<open>count\<close> bytes sets
  the first \<open>count\<close> bytes to zero, leaves the rest, and returns the number
  \<open>count\<close>; a write returns the number \<open>count\<close>, whatever the source holds.
\<close>

theorem zero_device_read_write:
  assumes "distinct (case_labels k)" and "i_dev inode = DEV_ZERO k"
    and "unat count < 2 ^ 31" and "unat count \<le> length buf"
  shows "as_number (devfs_inode_read k drv inode buf count offset) =
           Inr (int (unat count), replicate (unat count) 0 @ drop (unat count) buf) \<and>
         sint (devfs_inode_write k drv inode src count offset) = int (unat count)"
  using zero_device_bits [OF assms(1,2,4), of drv offset src] count_as_ssize [OF assms(3)]
  by (simp add: as_number_def)

theorem zero_device_read_write_witness:
  "distinct (case_labels sample_header) \<and> unat (2 :: size_t) < 2 ^ 31 \<and>
   as_number (devfs_inode_read sample_header idle_drivers
       \<lparr>i_ino = 1, i_dev = 0x0105, i_mode = 0x2000\<rparr> [7, 8, 9] 2 5) = Inr (2, [0, 0, 9]) \<and>
   sint (devfs_inode_write sample_header idle_drivers
       \<lparr>i_ino = 1, i_dev = 0x0105, i_mode = 0x2000\<rparr> [7, 8, 9] 2 5) = 2"
proof -
  have d: "distinct (case_labels sample_header)"
    by (simp add: case_labels_def sample_header_def)
  have z: "i_dev \<lparr>i_ino = 1, i_dev = 0x0105, i_mode = 0x2000\<rparr> = DEV_ZERO sample_header"
    by (simp add: sample_header_def)
  have b: "unat (2 :: size_t) < 2 ^ 31"
    by simp
  have l: "unat (2 :: size_t) \<le> length [7, 8, 9 :: byte]"
    by simp
  from zero_device_read_write [OF d z b l, of idle_drivers 5 "[7, 8, 9]"] d b
  show ?thesis by (simp add: replicate_2)
qed

text \<open>
  A write of \<open>2 ^ 32 - 1\<close> bytes returns -1, and a read of \<open>2 ^ 31\<close> bytes into a
  buffer of that size returns \<open>- 2 ^ 31\<close>.
\<close>

theorem zero_device_large_count_counterexample:
  "sint (devfs_inode_write sample_header idle_drivers
       \<lparr>i_ino = 1, i_dev = 0x0105, i_mode = 0x2000\<rparr> [7, 8, 9] 4294967295 0) = - 1 \<and>
   as_number (devfs_inode_read sample_header idle_drivers
       \<lparr>i_ino = 1, i_dev = 0x0105, i_mode = 0x2000\<rparr> (replicate 2147483648 7) 2147483648 0) =
     Inr (- 2147483648, replicate 2147483648 0)"
proof -
  have d: "distinct (case_labels sample_header)"
    by (simp add: case_labels_def sample_header_def)
  have z: "i_dev \<lparr>i_ino = 1, i_dev = 0x0105, i_mode = 0x2000\<rparr> = DEV_ZERO sample_header"
    by (simp add: sample_header_def)
  have l: "unat (2147483648 :: size_t) \<le> length (replicate 2147483648 (7 :: byte))"
    by simp
  have w: "unat (4294967295 :: size_t) \<le> length (replicate 4294967295 (7 :: byte))"
    by simp
  from zero_device_bits [OF d z l, of idle_drivers 0 "[]"]
    zero_device_bits [OF d z w, of idle_drivers 0 "[7, 8, 9]"]
  show ?thesis by (simp add: as_number_def)
qed

text \<open>
  C8. The claim: for every count, reading that many bytes from the null device returns
  the count and leaves the buffer as it was, and writing returns the count without a
  look at the source. The value returned is a \<^verbatim>\<open>ssize_t\<close>, and the claim holds for
  the counts up to \<open>SSIZE_MAX\<close>: a read returns the number \<open>count\<close> and the
  buffer is what it was; a write returns the number \<open>count\<close>, whatever the source
  holds.
\<close>

theorem null_device_read_write:
  assumes "distinct (case_labels k)" and "i_dev inode = DEV_NULL k"
    and "unat count < 2 ^ 31"
  shows "as_number (devfs_inode_read k drv inode buf count offset) = Inr (int (unat count), buf) \<and>
         sint (devfs_inode_write k drv inode src count offset) = int (unat count)"
  using null_device_bits [OF assms(1,2), of drv buf count offset src] count_as_ssize [OF assms(3)]
  by (simp add: as_number_def)

theorem null_device_read_write_witness:
  "distinct (case_labels sample_header) \<and> unat (2 :: size_t) < 2 ^ 31 \<and>
   as_number (devfs_inode_read sample_header idle_drivers
       \<lparr>i_ino = 2, i_dev = 0x0103, i_mode = 0x2000\<rparr> [7, 8, 9] 2 5) = Inr (2, [7, 8, 9]) \<and>
   sint (devfs_inode_write sample_header idle_drivers
       \<lparr>i_ino = 2, i_dev = 0x0103, i_mode = 0x2000\<rparr> [7, 8, 9] 2 5) = 2"
proof -
  have d: "distinct (case_labels sample_header)"
    by (simp add: case_labels_def sample_header_def)
  have z: "i_dev \<lparr>i_ino = 2, i_dev = 0x0103, i_mode = 0x2000\<rparr> = DEV_NULL sample_header"
    by (simp add: sample_header_def)
  have b: "unat (2 :: size_t) < 2 ^ 31"
    by simp
  from null_device_read_write [OF d z b, of idle_drivers "[7, 8, 9]" 5 "[7, 8, 9]"] d b
  show ?thesis by simp
qed

text \<open>
  A read of \<open>2 ^ 32 - 19\<close> bytes from the null device returns -19, the value of
  \<open>-ENODEV\<close> here, and a write of \<open>2 ^ 32 - 1\<close> bytes returns -1.
\<close>

theorem null_device_large_count_counterexample:
  "as_number (devfs_inode_read sample_header idle_drivers
       \<lparr>i_ino = 2, i_dev = 0x0103, i_mode = 0x2000\<rparr> [7, 8, 9] 4294967277 0) =
     Inr (- 19, [7, 8, 9]) \<and>
   sint (devfs_inode_write sample_header idle_drivers
       \<lparr>i_ino = 2, i_dev = 0x0103, i_mode = 0x2000\<rparr> [7, 8, 9] 4294967295 0) = - 1"
proof -
  have d: "distinct (case_labels sample_header)"
    by (simp add: case_labels_def sample_header_def)
  have z: "i_dev \<lparr>i_ino = 2, i_dev = 0x0103, i_mode = 0x2000\<rparr> = DEV_NULL sample_header"
    by (simp add: sample_header_def)
  from null_device_bits [OF d z, of idle_drivers "[7, 8, 9]" 4294967277 0 "[]"]
    null_device_bits [OF d z, of idle_drivers "[]" 4294967295 0 "[7, 8, 9]"]
  show ?thesis by (simp add: as_number_def)
qed

subsection \<open>Lookup by name\<close>

lemma name_to_dev_loop_absent:
  "name \<notin> fst ` set rows \<Longrightarrow> name_to_dev_loop rows name dev = dev"
  by (induction rows) auto

lemma devfs_lookup_loop_find:
  "devfs_lookup_loop nodes dev None = map_option base (find (\<lambda>n. i_dev (base n) = dev) nodes)"
  by (induction nodes) auto

text \<open>
  C9. The claim: for every name that is not in the table \<^verbatim>\<open>dev_name_map\<close>,
  \<^verbatim>\<open>name_to_dev\<close> returns \<^verbatim>\<open>0xFFFF\<close> and \<^verbatim>\<open>devfs_lookup\<close> searches the registry
  for that identifier, so that the lookup is NULL exactly when no node carries
  \<^verbatim>\<open>0xFFFF\<close>. The names \<open>.\<close> and \<open>..\<close> are not in the table either, and for them
  \<^verbatim>\<open>devfs_lookup\<close> returns the directory before any search. For every other name
  that is not in the table the claim holds: the result is the first node of the registry
  that carries \<^verbatim>\<open>0xFFFF\<close>, and NULL exactly when there is none.
\<close>

theorem lookup_unknown_name:
  assumes "name \<notin> fst ` set (dev_name_map k)"
  shows "name_to_dev k name = 0xFFFF \<and>
         (name \<noteq> ''.'' \<longrightarrow> name \<noteq> ''..'' \<longrightarrow>
            devfs_lookup k s dir name =
              map_option base (find (\<lambda>n. i_dev (base n) = 0xFFFF) (devfs_nodes s)) \<and>
            (devfs_lookup k s dir name = None \<longleftrightarrow>
               (\<forall>n \<in> set (devfs_nodes s). i_dev (base n) \<noteq> 0xFFFF))) \<and>
         (name = ''.'' \<or> name = ''..'' \<longrightarrow> devfs_lookup k s dir name = dir)"
proof -
  have 1: "name_to_dev k name = 0xFFFF"
    using assms by (simp add: name_to_dev_def name_to_dev_loop_absent)
  have 2: "devfs_lookup k s dir name =
      map_option base (find (\<lambda>n. i_dev (base n) = 0xFFFF) (devfs_nodes s))"
    if "name \<noteq> ''.''" and "name \<noteq> ''..''"
    using that by (simp add: devfs_lookup_def 1 devfs_lookup_loop_find)
  have 3: "devfs_lookup k s dir name = None \<longleftrightarrow>
      (\<forall>n \<in> set (devfs_nodes s). i_dev (base n) \<noteq> 0xFFFF)"
    if "name \<noteq> ''.''" and "name \<noteq> ''..''"
    unfolding 2 [OF that] by (auto simp: find_None_iff)
  have 4: "devfs_lookup k s dir name = dir" if "name = ''.'' \<or> name = ''..''"
    using that by (auto simp: devfs_lookup_def)
  from 1 2 3 4 show ?thesis by blast
qed

text \<open>
  The name \<open>nosuch\<close>: not found in a registry without such a node, and resolved to
  the node that carries \<^verbatim>\<open>0xFFFF\<close> in a registry with one.
\<close>

theorem lookup_unknown_name_witness:
  "''nosuch'' \<notin> fst ` set (dev_name_map sample_header) \<and>
   name_to_dev sample_header ''nosuch'' = 0xFFFF \<and>
   devfs_lookup sample_header sample_devfs None ''nosuch'' = None \<and>
   devfs_lookup sample_header sentinel_devfs None ''nosuch'' =
     Some \<lparr>i_ino = 1, i_dev = 0xFFFF, i_mode = 0x2000\<rparr> \<and>
   ''..'' \<notin> fst ` set (dev_name_map sample_header) \<and>
   devfs_lookup sample_header sentinel_devfs None ''..'' = None"
proof -
  have a: "''nosuch'' \<notin> fst ` set (dev_name_map sample_header)"
    by (simp add: dev_name_map_def)
  have c: "''..'' \<notin> fst ` set (dev_name_map sample_header)"
    by (simp add: dev_name_map_def)
  have 4: "devfs_lookup sample_header sentinel_devfs None ''..'' = None"
    by (rule lookup_unknown_name [OF c, THEN conjunct2, THEN conjunct2, THEN mp]) simp
  have b: "''nosuch'' \<noteq> ''.''" "''nosuch'' \<noteq> ''..''"
    by simp_all
  note t = lookup_unknown_name [OF a]
  note u = t [THEN conjunct2, THEN conjunct1, THEN mp, THEN mp, OF b, THEN conjunct1]
  have 1: "name_to_dev sample_header ''nosuch'' = 0xFFFF"
    by (rule t [THEN conjunct1])
  have 2: "devfs_lookup sample_header sample_devfs None ''nosuch'' = None"
    by (simp only: u) (simp add: sample_devfs_def)
  have 3: "devfs_lookup sample_header sentinel_devfs None ''nosuch'' =
     Some \<lparr>i_ino = 1, i_dev = 0xFFFF, i_mode = 0x2000\<rparr>"
    by (simp only: u) (simp add: sentinel_devfs_def)
  from a 1 2 3 c 4 show ?thesis by (intro conjI)
qed

text \<open>
  The name \<open>.\<close> is not in the table and the registry is empty, yet the lookup returns
  the directory.
\<close>

theorem lookup_dot_counterexample:
  "''.'' \<notin> fst ` set (dev_name_map sample_header) \<and>
   devfs_nodes devfs_boot = [] \<and>
   devfs_lookup sample_header devfs_boot (Some \<lparr>i_ino = 0, i_dev = 0x0300, i_mode = 0x4000\<rparr>) ''.''
     = Some \<lparr>i_ino = 0, i_dev = 0x0300, i_mode = 0x4000\<rparr>"
  by (simp add: dev_name_map_def devfs_boot_def devfs_lookup_def)

subsection \<open>Mounting\<close>

text \<open>From any state, the registry after mounting is the root alone.\<close>

lemma devfs_sb_create_any_state:
  "devfs_sb_create k (Some a) dev s =
     Inr (let root = \<lparr>addr = a, base = \<lparr>i_ino = ino s, i_dev = dev, i_mode = S_IFDIR k\<rparr>\<rparr>
          in s\<lparr>devfs_nodes := [root], ino := ino s + 1,
               devfs_sb := Some \<lparr>sb_dev = 0, sb_root_name = ''/'', sb_root_inode = root\<rparr>\<rparr>)"
  by (simp add: devfs_sb_create_def devfs_sb_inode_alloc_def store_node_def inode_init_def Let_def)

text \<open>When \<^verbatim>\<open>kmalloc\<close> returns NULL, the root is written through NULL.\<close>

lemma devfs_sb_create_no_memory: "devfs_sb_create k None dev s = Inl Null_deref"
  by (simp add: devfs_sb_create_def devfs_sb_inode_alloc_def)

text \<open>The lookup by identifier returns the first node that carries the identifier.\<close>

lemma dev_to_inode_loop_find:
  "find (\<lambda>n. i_dev (base n) = dev) nodes = Some n \<Longrightarrow>
   dev_to_inode_loop nodes dev x = Assigned (Some n)"
  by (induction nodes arbitrary: x) auto

text \<open>
  C10. \<^verbatim>\<open>devfs_sb_create\<close>, called with the counter at its initial value and given
  memory at \<open>a\<close>, takes the root node from \<^verbatim>\<open>devfs_sb_inode_alloc\<close>: the root is
  the first node of the registry, has the sequence number 0, the mode of a directory and
  the device identifier of the filesystem. Whatever nodes \<open>later\<close> the registry holds
  after the root, \<^verbatim>\<open>dev_to_inode\<close> at the identifier of the filesystem returns the
  root, and at any identifier that a node carries it returns the first node that carries
  it.
\<close>

theorem devfs_sb_create_root:
  "(let root = \<lparr>addr = a, base = \<lparr>i_ino = 0, i_dev = dev, i_mode = S_IFDIR k\<rparr>\<rparr>;
        s = \<lparr>devfs_nodes = [root], ino = 1,
             devfs_sb = Some \<lparr>sb_dev = 0, sb_root_name = ''/'', sb_root_inode = root\<rparr>\<rparr>
    in devfs_sb_create k (Some a) dev devfs_boot = Inr s \<and>
       fst (devfs_sb_inode_alloc (Some a) (devfs_boot\<lparr>devfs_nodes := []\<rparr>)) =
         Some \<lparr>addr = a, base = inode_init 0 0\<rparr> \<and>
       hd (devfs_nodes s) = root \<and>
       dev_to_inode s dev = Assigned (Some root) \<and>
       dev_to_inode (s\<lparr>devfs_nodes := devfs_nodes s @ later\<rparr>) dev = Assigned (Some root) \<and>
       (find (\<lambda>n. i_dev (base n) = dev') (devfs_nodes s @ later) = Some n \<longrightarrow>
          dev_to_inode (s\<lparr>devfs_nodes := devfs_nodes s @ later\<rparr>) dev' = Assigned (Some n)))"
  by (simp add: devfs_sb_create_any_state devfs_boot_def dev_to_inode_def Let_def
      devfs_sb_inode_alloc_def dev_to_inode_loop_find)

text \<open>
  A zero device after the root: the identifier of the filesystem finds the root, the
  identifier of the zero device finds the zero device.
\<close>

theorem devfs_sb_create_root_witness:
  "devfs_sb_create sample_header (Some 16) 0x0300 devfs_boot =
     Inr \<lparr>devfs_nodes = [\<lparr>addr = 16, base = \<lparr>i_ino = 0, i_dev = 0x0300, i_mode = 0x4000\<rparr>\<rparr>],
          ino = 1,
          devfs_sb = Some \<lparr>sb_dev = 0, sb_root_name = ''/'',
            sb_root_inode = \<lparr>addr = 16, base = \<lparr>i_ino = 0, i_dev = 0x0300, i_mode = 0x4000\<rparr>\<rparr>\<rparr>\<rparr> \<and>
   find (\<lambda>n. i_dev (base n) = 0x0105)
     [\<lparr>addr = 16, base = \<lparr>i_ino = 0, i_dev = 0x0300, i_mode = 0x4000\<rparr>\<rparr>,
      \<lparr>addr = 32, base = \<lparr>i_ino = 1, i_dev = 0x0105, i_mode = 0x2000\<rparr>\<rparr>] =
     Some \<lparr>addr = 32, base = \<lparr>i_ino = 1, i_dev = 0x0105, i_mode = 0x2000\<rparr>\<rparr> \<and>
   dev_to_inode
     \<lparr>devfs_nodes =
        [\<lparr>addr = 16, base = \<lparr>i_ino = 0, i_dev = 0x0300, i_mode = 0x4000\<rparr>\<rparr>,
         \<lparr>addr = 32, base = \<lparr>i_ino = 1, i_dev = 0x0105, i_mode = 0x2000\<rparr>\<rparr>],
       ino = 1,
       devfs_sb = Some \<lparr>sb_dev = 0, sb_root_name = ''/'',
            sb_root_inode = \<lparr>addr = 16, base = \<lparr>i_ino = 0, i_dev = 0x0300, i_mode = 0x4000\<rparr>\<rparr>\<rparr>\<rparr> 0x0300 =
     Assigned (Some \<lparr>addr = 16, base = \<lparr>i_ino = 0, i_dev = 0x0300, i_mode = 0x4000\<rparr>\<rparr>) \<and>
   dev_to_inode
     \<lparr>devfs_nodes =
        [\<lparr>addr = 16, base = \<lparr>i_ino = 0, i_dev = 0x0300, i_mode = 0x4000\<rparr>\<rparr>,
         \<lparr>addr = 32, base = \<lparr>i_ino = 1, i_dev = 0x0105, i_mode = 0x2000\<rparr>\<rparr>],
       ino = 1,
       devfs_sb = Some \<lparr>sb_dev = 0, sb_root_name = ''/'',
            sb_root_inode = \<lparr>addr = 16, base = \<lparr>i_ino = 0, i_dev = 0x0300, i_mode = 0x4000\<rparr>\<rparr>\<rparr>\<rparr> 0x0105 =
     Assigned (Some \<lparr>addr = 32, base = \<lparr>i_ino = 1, i_dev = 0x0105, i_mode = 0x2000\<rparr>\<rparr>)"
proof -
  let ?root = "\<lparr>addr = 16, base = \<lparr>i_ino = 0, i_dev = 0x0300, i_mode = 0x4000\<rparr>\<rparr>"
  let ?zero = "\<lparr>addr = 32, base = \<lparr>i_ino = 1, i_dev = 0x0105, i_mode = 0x2000\<rparr>\<rparr>"
  have f: "find (\<lambda>n. i_dev (base n) = 0x0105) [?root, ?zero] = Some ?zero"
    by simp
  have m: "S_IFDIR sample_header = 0x4000"
    by (simp add: sample_header_def)
  note t = devfs_sb_create_root [where a = 16 and dev = "0x0300" and k = sample_header
      and later = "[?zero]" and dev' = "0x0105" and n = ?zero, unfolded Let_def m]
  from t f show ?thesis
    by simp
qed

subsection \<open>Sequence numbers\<close>

text \<open>Adding to the counter without passing \<open>INT_MAX\<close>.\<close>

lemma sint_add_of_nat:
  fixes x :: c_int
  assumes "sint x + int i < 2 ^ 31"
  shows "sint (x + of_nat i) = sint x + int i"
proof -
  have lo: "- (2 ^ 31) \<le> sint x + int i"
    using sint_ge [of x] by simp
  have "x + of_nat i = word_of_int (sint x + int i)"
    by simp
  then have "sint (x + of_nat i) = signed_take_bit 31 (sint x + int i)"
    by (simp only: sint_sbintrunc') simp
  also have "\<dots> = sint x + int i"
    using lo assms by (simp add: signed_take_bit_int_eq_self)
  finally show ?thesis .
qed

text \<open>Releasing a node leaves the counter as it is, and so does a failed allocation.\<close>

lemma free_keeps_ino: "devfs_sb_inode_free a s = Inr s' \<Longrightarrow> ino s' = ino s"
  by (auto simp: devfs_sb_inode_free_def split: if_splits)

lemma alloc_fails_keeps_state: "devfs_sb_inode_alloc None s = (None, s)"
  by (simp add: devfs_sb_inode_alloc_def)

lemma upt_numbers_Suc:
  "map (\<lambda>i. x + of_nat i) [0..<Suc n] = (x :: c_int) # map (\<lambda>i. x + 1 + of_nat i) [0..<n]"
  by (simp add: upt_rec [of 0] map_Suc_upt [symmetric] del: upt_Suc)

text \<open>
  The numbers a run assigns are the successive values of the counter, whatever is
  released in between.
\<close>

lemma run_numbers:
  "run ops s = Inr (ns, s') \<Longrightarrow>
   ns = map (\<lambda>i. ino s + of_nat i) [0..<length ns] \<and> ino s' = ino s + of_nat (length ns)"
proof (induction ops arbitrary: s ns s')
  case Nil
  then show ?case by simp
next
  case (Cons x ops)
  show ?case
  proof (cases x)
    case (Alloc kmalloc)
    show ?thesis
    proof (cases kmalloc)
      case None
      with Cons Alloc show ?thesis by (simp add: devfs_sb_inode_alloc_def)
    next
      case (Some a)
      let ?s1 = "s\<lparr>ino := ino s + 1,
        devfs_nodes := devfs_nodes s @ [\<lparr>addr = a, base = inode_init 0 (ino s)\<rparr>]\<rparr>"
      from Cons.prems Alloc Some obtain ms where
        ms: "run ops ?s1 = Inr (ms, s')" and ns: "ns = ino s # ms"
        by (auto simp: devfs_sb_inode_alloc_def Let_def inode_init_def split: sum.splits)
      from Cons.IH [OF ms] have
        1: "ms = map (\<lambda>i. ino s + 1 + of_nat i) [0..<length ms]" and
        2: "ino s' = ino s + 1 + of_nat (length ms)"
        by simp_all
      from 1 have "ns = map (\<lambda>i. ino s + of_nat i) [0..<length ns]"
        unfolding ns length_Cons upt_numbers_Suc by simp
      moreover from 2 have "ino s' = ino s + of_nat (length ns)"
        by (simp add: ns ac_simps)
      ultimately show ?thesis by (rule conjI)
    qed
  next
    case (Free a)
    with Cons.prems obtain s1 where
      f: "devfs_sb_inode_free a s = Inr s1" and r: "run ops s1 = Inr (ns, s')"
      by (auto split: sum.splits)
    from Cons.IH [OF r] free_keeps_ino [OF f] show ?thesis by simp
  qed
qed

text \<open>
  C6. The claim: every allocation assigns a sequence number greater than every number
  assigned before, and a release never resets the counter, so that no number is used
  twice. The counter is an \<^verbatim>\<open>int\<close>, and the claim holds as long as it has not passed
  \<open>INT_MAX\<close>: in a run of allocations and releases that starts with the counter at
  \<open>ino s\<close> and assigns the numbers \<open>ns\<close>, with \<open>ino s + length ns\<close> below
  \<open>2 ^ 31\<close>, the numbers increase, none is below the counter at the start, and all are
  below the counter at the end, which has advanced by their count.
\<close>

theorem alloc_numbers_increase:
  assumes "run ops s = Inr (ns, s')" and "sint (ino s) + int (length ns) < 2 ^ 31"
  shows "increasing ns \<and> (\<forall>n \<in> set ns. sint (ino s) \<le> sint n \<and> sint n < sint (ino s')) \<and>
         sint (ino s') = sint (ino s) + int (length ns)"
proof -
  from run_numbers [OF assms(1)] have
    ns: "ns = map (\<lambda>i. ino s + of_nat i) [0..<length ns]" and
    fin: "ino s' = ino s + of_nat (length ns)"
    by simp_all
  have val: "sint (ino s + of_nat i) = sint (ino s) + int i" if "i \<le> length ns" for i
    using that assms(2) by (intro sint_add_of_nat) simp
  have nth: "sint (ns ! i) = sint (ino s) + int i" if "i < length ns" for i
  proof -
    have "ns ! i = ino s + of_nat i"
      using that by (subst ns) simp
    with val [of i] that show ?thesis by simp
  qed
  have inc: "increasing ns"
    unfolding increasing_def sorted_wrt_iff_nth_less by (simp add: nth)
  have fin': "sint (ino s') = sint (ino s) + int (length ns)"
    using val [of "length ns"] fin by simp
  have "sint (ino s) \<le> sint n \<and> sint n < sint (ino s')" if "n \<in> set ns" for n
  proof -
    from that obtain i where "i < length ns" "n = ns ! i"
      by (auto simp: in_set_conv_nth)
    with nth [of i] fin' show ?thesis by simp
  qed
  with inc fin' show ?thesis by blast
qed

text \<open>Three allocations from the start, with a release and a failed allocation between.\<close>

theorem alloc_numbers_increase_witness:
  "run [Alloc (Some 16), Alloc (Some 32), Free 16, Alloc None, Alloc (Some 16)] devfs_boot =
     Inr ([0, 1, 2],
          \<lparr>devfs_nodes = [\<lparr>addr = 32, base = \<lparr>i_ino = 1, i_dev = 0, i_mode = 0\<rparr>\<rparr>,
                          \<lparr>addr = 16, base = \<lparr>i_ino = 2, i_dev = 0, i_mode = 0\<rparr>\<rparr>],
           ino = 3, devfs_sb = None\<rparr>) \<and>
   sint (ino devfs_boot) + int (length [0, 1, 2 :: c_int]) < 2 ^ 31 \<and>
   increasing [0, 1, 2]"
proof -
  have r: "run [Alloc (Some 16), Alloc (Some 32), Free 16, Alloc None, Alloc (Some 16)] devfs_boot =
     Inr ([0, 1, 2],
          \<lparr>devfs_nodes = [\<lparr>addr = 32, base = \<lparr>i_ino = 1, i_dev = 0, i_mode = 0\<rparr>\<rparr>,
                          \<lparr>addr = 16, base = \<lparr>i_ino = 2, i_dev = 0, i_mode = 0\<rparr>\<rparr>],
           ino = 3, devfs_sb = None\<rparr>)"
    by (simp add: devfs_boot_def devfs_sb_inode_alloc_def devfs_sb_inode_free_def inode_init_def
        Let_def)
  have b: "sint (ino devfs_boot) + int (length [0, 1, 2 :: c_int]) < 2 ^ 31"
    by (simp add: devfs_boot_def)
  from alloc_numbers_increase [OF r b] r b show ?thesis by (intro conjI) simp_all
qed

text \<open>A run in two parts.\<close>

lemma run_append:
  "run (xs @ ys) s =
     (case run xs s of
        Inl e \<Rightarrow> Inl e
      | Inr (ns, s') \<Rightarrow>
          (case run ys s' of Inl e \<Rightarrow> Inl e | Inr (ms, s'') \<Rightarrow> Inr (ns @ ms, s'')))"
proof (induction xs arbitrary: s)
  case Nil
  then show ?case by (simp split: sum.splits)
next
  case (Cons x xs)
  then show ?case
    by (cases x) (auto split: sum.splits option.splits prod.splits)
qed

text \<open>
  Allocating and releasing one node \<open>n\<close> times leaves the registry as it was and the
  counter advanced by \<open>n\<close>.
\<close>

lemma run_churn:
  "a \<notin> addr ` set (devfs_nodes s) \<Longrightarrow>
   run (churn a n) s = Inr (map (\<lambda>i. ino s + of_nat i) [0..<n], s\<lparr>ino := ino s + of_nat n\<rparr>)"
proof (induction n arbitrary: s)
  case 0
  then show ?case by (simp add: churn_def)
next
  case (Suc n)
  let ?s1 = "s\<lparr>ino := ino s + 1\<rparr>"
  have keep: "filter (\<lambda>n. addr n \<noteq> a) (devfs_nodes s) = devfs_nodes s"
    using Suc.prems by (auto simp: filter_id_conv)
  have step: "churn a (Suc n) = Alloc (Some a) # Free a # churn a n"
    by (simp add: churn_def)
  have "a \<notin> addr ` set (devfs_nodes ?s1)"
    using Suc.prems by simp
  from Suc.IH [OF this] have
    "run (churn a n) ?s1 =
       Inr (map (\<lambda>i. ino s + 1 + of_nat i) [0..<n], s\<lparr>ino := ino s + 1 + of_nat n\<rparr>)"
    by simp
  then show ?case
    unfolding step upt_numbers_Suc
    by (simp add: devfs_sb_inode_alloc_def devfs_sb_inode_free_def Let_def inode_init_def keep
        ac_simps del: upt_Suc)
qed

text \<open>
  From the empty registry with the counter at 0, after \<open>2 ^ 31 - 1\<close> nodes were allocated and
  released, the counter is \<open>INT_MAX\<close>; the next two allocations are given 2147483647
  and -2147483648.
\<close>

theorem counter_wraps_counterexample:
  "\<not> increasing
      (assigned (run (churn 16 (2 ^ 31 - 1) @ [Alloc (Some 16), Alloc (Some 32)]) devfs_boot)) \<and>
   map sint (drop (2 ^ 31 - 1)
      (assigned (run (churn 16 (2 ^ 31 - 1) @ [Alloc (Some 16), Alloc (Some 32)]) devfs_boot))) =
     [2147483647, - 2147483648]"
proof -
  have "run (churn 16 (2 ^ 31 - 1)) devfs_boot =
      Inr (map (\<lambda>i. of_nat i) [0..<2 ^ 31 - 1], devfs_boot\<lparr>ino := 0x7FFFFFFF\<rparr>)"
    using run_churn [of 16 devfs_boot "2 ^ 31 - 1"] by (simp add: devfs_boot_def)
  then have "assigned (run (churn 16 (2 ^ 31 - 1) @ [Alloc (Some 16), Alloc (Some 32)]) devfs_boot) =
      map (\<lambda>i. of_nat i) [0..<2 ^ 31 - 1] @ [0x7FFFFFFF, 0x80000000]"
    by (simp add: run_append assigned_def devfs_sb_inode_alloc_def Let_def inode_init_def)
  then show ?thesis
    by (simp add: increasing_def sorted_wrt_append)
qed

subsection \<open>Directory iteration\<close>

text \<open>A call that finds the cursor at the link of an entry returns that entry.\<close>

lemma readdir_child_step:
  assumes "h c = Some entry" and "1 < i"
    and "i = 2 \<longrightarrow> map_option child_next (h dir) = Some (Dentry_link c)"
    and "i \<noteq> 2 \<longrightarrow> p = Dentry_link c"
  shows "devfs_dentry_readdir k h p dir i dent = Inr (0, dirent_of k h c, link_next entry)"
  using assms
  by (auto simp: devfs_dentry_readdir_def readdir_return_def dirent_of_def)

text \<open>With the cursor at the head of the child list, the calls return -1 and stay there.\<close>

lemma readdir_end:
  assumes "2 < i"
  shows "devfs_dentry_readdir k h (Child_head dir) dir i dent = Inr (- 1, dent, Child_head dir)"
  using assms by (simp add: devfs_dentry_readdir_def readdir_return_def)

lemma readdir_calls_Suc:
  "devfs_dentry_readdir k h p dir i dent = Inr (res, dent', link) \<Longrightarrow>
   readdir_calls k h n link dir (Suc i) dent' = Inr (rs, link') \<Longrightarrow>
   readdir_calls k h (Suc n) p dir i dent = Inr ((res, dent') # rs, link')"
  by simp

lemma listing_Cons:
  "listing k h dent (c # cs) = (0, dirent_of k h c) # listing k h (dirent_of k h c) cs"
  by (simp add: listing_def)

text \<open>The calls at indices beyond 2, from a cursor inside the child list.\<close>

lemma readdir_calls_from_cursor:
  assumes "child_list h p cs (Child_head dir)" and "2 < i"
  shows "readdir_calls k h (Suc (length cs)) p dir i dent = Inr (listing k h dent cs, Child_head dir)"
  using assms
proof (induction cs arbitrary: p i dent)
  case Nil
  then show ?case by (simp add: readdir_end listing_def)
next
  case (Cons c cs)
  from Cons.prems(1) obtain entry where
    p: "p = Dentry_link c" and e: "h c = Some entry" and
    rest: "child_list h (link_next entry) cs (Child_head dir)"
    by (auto split: option.splits)
  have step: "devfs_dentry_readdir k h p dir i dent = Inr (0, dirent_of k h c, link_next entry)"
    using e p Cons.prems(2) by (intro readdir_child_step) auto
  have "readdir_calls k h (Suc (length cs)) (link_next entry) dir (Suc i) (dirent_of k h c) =
          Inr (listing k h (dirent_of k h c) cs, Child_head dir)"
    using rest Cons.prems(2) by (intro Cons.IH) auto
  with step show ?case
    unfolding listing_Cons length_Cons by (rule readdir_calls_Suc)
qed

text \<open>The links determine the children: a child list has one reading.\<close>

lemma child_list_unique:
  "child_list h p xs (Child_head d) \<Longrightarrow> child_list h p ys (Child_head d') \<Longrightarrow> xs = ys"
proof (induction xs arbitrary: p ys)
  case Nil
  then show ?case by (cases ys) auto
next
  case (Cons x xs)
  then show ?case by (cases ys) (auto split: option.splits)
qed

lemma child_list_suffix:
  "child_list h p (xs @ c # ys) q \<Longrightarrow> child_list h (Dentry_link c) (c # ys) q"
proof (induction xs arbitrary: p)
  case Nil
  then show ?case by simp
next
  case (Cons x xs)
  from Cons.prems obtain entry where
    "h x = Some entry" and "child_list h (link_next entry) (xs @ c # ys) q"
    by (auto split: option.splits)
  then show ?case by (blast intro: Cons.IH)
qed

text \<open>No entry is twice in a child list that ends at a head.\<close>

lemma child_list_distinct:
  "child_list h p cs (Child_head d) \<Longrightarrow> distinct cs"
proof (induction cs arbitrary: p)
  case Nil
  then show ?case by simp
next
  case (Cons c cs)
  from Cons.prems obtain entry where
    e: "h c = Some entry" and rest: "child_list h (link_next entry) cs (Child_head d)"
    by (auto split: option.splits)
  have "c \<notin> set cs"
  proof
    assume "c \<in> set cs"
    then obtain xs ys where cs: "cs = xs @ c # ys"
      by (auto simp: in_set_conv_decomp)
    with rest have "child_list h (Dentry_link c) (c # ys) (Child_head d)"
      by (auto dest: child_list_suffix)
    moreover have "child_list h (Dentry_link c) (c # cs) (Child_head d)"
      using e rest by simp
    ultimately have "c # ys = c # cs"
      by (rule child_list_unique)
    with cs show False by simp
  qed
  with Cons.IH [OF rest] show ?case by simp
qed

text \<open>A name that fits the array is followed by NUL characters.\<close>

lemma strncpy_short:
  "length src \<le> n \<Longrightarrow> strncpy src n = src @ replicate (n - length src) (CHR 0x00)"
  by (simp add: strncpy_def)

text \<open>
  C7. For a directory whose child list holds the entries \<open>cs\<close>: the call at index 0
  returns 0 with the name \<open>.\<close>, the call at index 1 returns 0 with the name \<open>..\<close>,
  and \<open>length cs + 1\<close> calls at the indices 2, 3, ... return 0 with the name and
  the sequence number of each child, in the order of the list and each child once, and
  then -1; the cursor is left at the head of the list. The static cursor may hold
  anything before the walk.
\<close>

theorem readdir_lists_children:
  assumes "h dir = Some d" and "child_list h (child_next d) cs (Child_head dir)"
  shows "devfs_dentry_readdir k h p dir 0 dent =
           Inr (0, dent\<lparr>d_name := strncpy ''.'' (D_NAME_SIZE k)\<rparr>, p) \<and>
         devfs_dentry_readdir k h p dir 1 dent =
           Inr (0, dent\<lparr>d_name := strncpy ''..'' (D_NAME_SIZE k)\<rparr>, p) \<and>
         readdir_calls k h (Suc (length cs)) p dir 2 dent =
           Inr (listing k h dent cs, Child_head dir) \<and>
         distinct cs"
proof -
  have first: "devfs_dentry_readdir k h p dir 0 dent =
           Inr (0, dent\<lparr>d_name := strncpy ''.'' (D_NAME_SIZE k)\<rparr>, p)"
    by (simp add: devfs_dentry_readdir_def readdir_return_def)
  have second: "devfs_dentry_readdir k h p dir 1 dent =
           Inr (0, dent\<lparr>d_name := strncpy ''..'' (D_NAME_SIZE k)\<rparr>, p)"
    by (simp add: devfs_dentry_readdir_def readdir_return_def)
  have walk: "readdir_calls k h (Suc (length cs)) p dir 2 dent =
           Inr (listing k h dent cs, Child_head dir)"
  proof (cases cs)
    case Nil
    with assms show ?thesis
      by (simp add: devfs_dentry_readdir_def readdir_return_def listing_def)
  next
    case (Cons c cs')
    with assms(2) obtain entry where
      c: "child_next d = Dentry_link c" and e: "h c = Some entry" and
      rest: "child_list h (link_next entry) cs' (Child_head dir)"
      by (auto split: option.splits)
    have step: "devfs_dentry_readdir k h p dir 2 dent = Inr (0, dirent_of k h c, link_next entry)"
      using e c assms(1) by (intro readdir_child_step) auto
    have "readdir_calls k h (Suc (length cs')) (link_next entry) dir (Suc 2) (dirent_of k h c) =
          Inr (listing k h (dirent_of k h c) cs', Child_head dir)"
      using rest by (intro readdir_calls_from_cursor) auto
    with step show ?thesis
      unfolding Cons listing_Cons length_Cons by (rule readdir_calls_Suc)
  qed
  from first second walk child_list_distinct [OF assms(2)] show ?thesis by blast
qed

text \<open>The directory at address 10 with the children \<open>zero\<close> and \<open>tty1\<close>.\<close>

theorem readdir_lists_children_witness:
  "sample_dentries 10 =
     Some \<lparr>de_name = ''/'', de_inode = \<lparr>i_ino = 0, i_dev = 0x0300, i_mode = 0x4000\<rparr>,
           child_next = Dentry_link 11, link_next = Null_link\<rparr> \<and>
   child_list sample_dentries (Dentry_link 11) [11, 12] (Child_head 10) \<and>
   readdir_calls sample_header sample_dentries 3 Null_link 10 2 \<lparr>d_ino = 0, d_name = []\<rparr> =
     Inr ([(0, \<lparr>d_ino = 1, d_name = ''zero'' @ replicate 4 (CHR 0x00)\<rparr>),
           (0, \<lparr>d_ino = 2, d_name = ''tty1'' @ replicate 4 (CHR 0x00)\<rparr>),
           (- 1, \<lparr>d_ino = 2, d_name = ''tty1'' @ replicate 4 (CHR 0x00)\<rparr>)], Child_head 10)"
proof -
  have d: "sample_dentries 10 =
     Some \<lparr>de_name = ''/'', de_inode = \<lparr>i_ino = 0, i_dev = 0x0300, i_mode = 0x4000\<rparr>,
           child_next = Dentry_link 11, link_next = Null_link\<rparr>"
    by (simp add: sample_dentries_def)
  have c: "child_list sample_dentries (Dentry_link 11) [11, 12] (Child_head 10)"
    by (simp add: sample_dentries_def)
  have l: "listing sample_header sample_dentries \<lparr>d_ino = 0, d_name = []\<rparr> [11, 12] =
      [(0, \<lparr>d_ino = 1, d_name = ''zero'' @ replicate 4 (CHR 0x00)\<rparr>),
       (0, \<lparr>d_ino = 2, d_name = ''tty1'' @ replicate 4 (CHR 0x00)\<rparr>),
       (- 1, \<lparr>d_ino = 2, d_name = ''tty1'' @ replicate 4 (CHR 0x00)\<rparr>)]"
    by (simp add: listing_def dirent_of_def sample_dentries_def sample_header_def strncpy_short)
  from readdir_lists_children [of sample_dentries 10 _ "[11, 12]" sample_header Null_link
      "\<lparr>d_ino = 0, d_name = []\<rparr>", OF d] c
  have "readdir_calls sample_header sample_dentries (Suc (length [11, 12 :: nat])) Null_link 10 2
      \<lparr>d_ino = 0, d_name = []\<rparr> =
      Inr (listing sample_header sample_dentries \<lparr>d_ino = 0, d_name = []\<rparr> [11, 12], Child_head 10)"
    by simp
  with d c show ?thesis
    unfolding l by (simp add: numeral_3_eq_3)
qed

end
